theory Spec2Isabelle
  imports Main "HOL-Library.Word"
begin

section \<open>The HAL IPC transport of android/hal-ipc.c\<close>

text \<open>
  The file embeds \<^verbatim>\<open>src/android/hal-ipc.c\<close>: the command round trip
  \<^verbatim>\<open>hal_ipc_cmd\<close>, the connection set-up \<^verbatim>\<open>hal_ipc_init\<close> with
  \<^verbatim>\<open>accept_connection\<close>, the teardown \<^verbatim>\<open>hal_ipc_cleanup\<close> and the body of the
  notification thread, \<^verbatim>\<open>notification_handler\<close> with \<^verbatim>\<open>notification_dispatch\<close>.

  The three globals \<^verbatim>\<open>cmd_sk\<close>, \<^verbatim>\<open>notif_sk\<close> and \<^verbatim>\<open>notif_th\<close> are a record
  that every function takes and returns. What the kernel and the peer do is an input of
  the model: the value each system call returns, and for \<^verbatim>\<open>recvmsg\<close> the record the
  peer sent. Every call the code makes is appended to a trace, so that the order of the
  calls can be stated. \<^verbatim>\<open>exit(EXIT_FAILURE)\<close> is the outcome \<open>Exit\<close>; dereferencing a
  null pointer, or a read or write outside a buffer, is the outcome \<open>Undefined\<close>.
\<close>

subsection \<open>Wire format\<close>

type_synonym byte = "8 word"

text \<open>
  Modelled from the spec: \<^verbatim>\<open>struct hal_msg_hdr\<close> (hal-msg.h, not among the sources),
  of which the code uses the fields \<^verbatim>\<open>service_id\<close>, \<^verbatim>\<open>opcode\<close>, \<^verbatim>\<open>len\<close> and
  \<^verbatim>\<open>payload\<close>, is a packed record of a one-byte service identifier, a one-byte
  opcode and a two-byte payload length, the payload following it; so
  \<^verbatim>\<open>sizeof(struct hal_msg_hdr)\<close> is 4. The two length bytes are read in the byte
  order of the host, taken little-endian here.
\<close>

record hal_msg_hdr =
  service_id :: byte
  opcode :: byte
  len :: "16 word"

definition hdr_size :: nat where
  "hdr_size = 4"

definition encode_hdr :: "hal_msg_hdr \<Rightarrow> byte list" where
  "encode_hdr h = [service_id h, opcode h, ucast (len h), ucast (drop_bit 8 (len h))]"

fun decode_hdr :: "byte list \<Rightarrow> hal_msg_hdr" where
  "decode_hdr (a # b # c # d # _) =
     \<lparr>service_id = a, opcode = b, len = word_of_nat (unat c + 256 * unat d)\<rparr>"
| "decode_hdr _ = \<lparr>service_id = 0, opcode = 0, len = 0\<rparr>"

text \<open>
  Modelled from the spec: \<^verbatim>\<open>struct hal_msg_rsp_error\<close> (hal-msg.h, not among the
  sources) is the fixed-size error body whose sole field is the status code; it is one
  byte, at offset 0, so \<^verbatim>\<open>sizeof(struct hal_msg_rsp_error)\<close> is 1.
\<close>

definition err_size :: nat where
  "err_size = 1"

text \<open>
  The constants of hal-msg.h, hal.h and the Android headers that the code names are
  parameters of the model.
\<close>

record hal_consts =
  HAL_MSG_OP_ERROR :: byte
  HAL_MSG_MINIMUM_EVENT :: byte
  HAL_SERVICE_ID_BLUETOOTH :: byte
  BLUEZ_HAL_MTU :: nat
  BT_STATUS_SUCCESS :: int

text \<open>An instance of the constants, for evaluating the model at concrete inputs.\<close>

definition example_consts :: hal_consts where
  "example_consts =
     \<lparr>HAL_MSG_OP_ERROR = 0, HAL_MSG_MINIMUM_EVENT = 129, HAL_SERVICE_ID_BLUETOOTH = 1,
      BLUEZ_HAL_MTU = 1024, BT_STATUS_SUCCESS = 0\<rparr>"

subsection \<open>State, trace and outcomes\<close>

record hal_state =
  cmd_sk :: int
  notif_sk :: int
  notif_th :: nat

definition initial_state :: hal_state where
  "initial_state = \<lparr>cmd_sk = - 1, notif_sk = - 1, notif_th = 0\<rparr>"

text \<open>A state after a successful \<^verbatim>\<open>hal_ipc_init\<close>, for evaluating the model.\<close>

definition connected_state :: hal_state where
  "connected_state = \<lparr>cmd_sk = 4, notif_sk = 5, notif_th = 1\<rparr>"

text \<open>The same state after the command socket was closed and reset.\<close>

definition torn_down_state :: hal_state where
  "torn_down_state = \<lparr>cmd_sk = - 1, notif_sk = 5, notif_th = 1\<rparr>"

datatype event =
    Socket
  | Bind int
  | Listen int
  | PropertySet
  | Poll int
  | Accept int
  | Close int
  | ShutdownRd int
  | PthreadCreate
  | PthreadJoin nat
  | MutexLock
  | MutexUnlock
  | Sendmsg int "byte list"
  | Recvmsg int
  | NotificationDispatch hal_msg_hdr "byte list" int
  | BtNotifyAdapter byte "byte list" "16 word"



datatype 'a outcome = Return 'a | Exit | Undefined

subsection \<open>The kernel's side of recvmsg\<close>

text \<open>
  One control message of the ancillary data: its level, its type and the \<^verbatim>\<open>int\<close>
  at \<^verbatim>\<open>CMSG_DATA\<close>. \<^verbatim>\<open>SOL_SOCKET\<close> and \<^verbatim>\<open>SCM_RIGHTS\<close> have the values of Linux.
\<close>

record cmsghdr =
  cmsg_level :: int
  cmsg_type :: int
  cmsg_data :: int

definition SOL_SOCKET :: int where
  "SOL_SOCKET = 1"

definition SCM_RIGHTS :: int where
  "SCM_RIGHTS = 1"

definition passed_fd :: "int \<Rightarrow> cmsghdr" where
  "passed_fd d = \<lparr>cmsg_level = SOL_SOCKET, cmsg_type = SCM_RIGHTS, cmsg_data = d\<rparr>"

text \<open>
  What one \<^verbatim>\<open>recvmsg\<close> meets: a failure (the call returns -1), or one record of the
  SOCK_SEQPACKET socket with the control messages that come with it. The empty record
  is the zero-length read, which is also what a socket shut down for reading gives.
\<close>

datatype recv_event = RecvFail | RecvMsg "byte list" "cmsghdr list"

record recvd =
  ret :: int
  iov0 :: "byte list"
  iov1 :: "byte list"
  control :: "cmsghdr list"

text \<open>
  \<^verbatim>\<open>recvmsg\<close> with two buffers: \<open>b0\<close>, filled up to its size, then the first
  \<open>n1\<close> bytes of \<open>b1\<close> (\<^verbatim>\<open>iov_len\<close> is what the caller says, not the size of the
  buffer). The rest of a longer record is dropped. The result is the number of bytes
  stored. The control messages are stored when the caller gave a control buffer.
  \<open>None\<close>: the kernel was told to write behind the end of \<open>b1\<close>.
\<close>

definition recvmsg :: "recv_event \<Rightarrow> byte list \<Rightarrow> nat \<Rightarrow> byte list \<Rightarrow> bool \<Rightarrow> recvd option" where
  "recvmsg ev b0 n1 b1 want_control =
     (case ev of
        RecvFail \<Rightarrow> Some \<lparr>ret = - 1, iov0 = b0, iov1 = b1, control = []\<rparr>
      | RecvMsg data anc \<Rightarrow>
          (let k0 = min (length data) (length b0);
               rest = drop k0 data;
               k1 = min (length rest) n1
           in if length b1 < k1 then None
              else Some \<lparr>ret = int (k0 + k1),
                         iov0 = take k0 data @ drop k0 b0,
                         iov1 = take k1 rest @ drop k1 b1,
                         control = (if want_control then anc else [])\<rparr>))"

text \<open>
  \<^verbatim>\<open>CMSG_FIRSTHDR\<close>: the first control message, or the null pointer when the control
  data received is shorter than one \<^verbatim>\<open>struct cmsghdr\<close>.
\<close>

definition CMSG_FIRSTHDR :: "cmsghdr list \<Rightarrow> cmsghdr option" where
  "CMSG_FIRSTHDR ctl = (case ctl of [] \<Rightarrow> None | c # _ \<Rightarrow> Some c)"

text \<open>
  The loop over the control messages, the same text in \<^verbatim>\<open>hal_ipc_cmd\<close> (lines
  355-362) and in \<^verbatim>\<open>notification_handler\<close> (lines 120-127):
  \<^verbatim>\<open>for (cmsg = CMSG_FIRSTHDR(&msg); !cmsg; cmsg = CMSG_NXTHDR(&msg, cmsg))\<close>.
  Its condition is \<^verbatim>\<open>!cmsg\<close>. With a first control message the condition is false
  at once, the body never runs and \<open>fd\<close> keeps the value it has. With none, the
  body runs with \<^verbatim>\<open>cmsg\<close> null and reads \<^verbatim>\<open>cmsg->cmsg_level\<close> through it.
\<close>

definition recv_aux :: "cmsghdr list \<Rightarrow> int \<Rightarrow> int outcome" where
  "recv_aux ctl fd =
     (case CMSG_FIRSTHDR ctl of
        Some c \<Rightarrow> Return fd
      | None \<Rightarrow> Undefined)"

subsection \<open>hal_ipc_cmd\<close>

text \<open>
  What the caller sees after the call: the value returned, and the three places the
  caller gave pointers to (\<open>None\<close> for a null pointer).
\<close>

record cmd_out =
  status :: int
  rsp_len_out :: "nat option"
  rsp_out :: "byte list option"
  fd_out :: "int option"

text \<open>
  Lines 269-273: where the body of the response goes. With both \<^verbatim>\<open>rsp\<close> and
  \<^verbatim>\<open>rsp_len\<close> given it is the caller's buffer, \<^verbatim>\<open>*rsp_len\<close> bytes of it;
  otherwise the local \<^verbatim>\<open>err\<close>, zeroed, of \<^verbatim>\<open>sizeof(err)\<close> bytes. The first
  component says that the buffer is the caller's.
\<close>

definition rsp_target :: "nat option \<Rightarrow> byte list option \<Rightarrow> bool \<times> nat \<times> byte list" where
  "rsp_target rsp_len rsp =
     (case (rsp, rsp_len) of
        (Some b, Some l) \<Rightarrow> (True, l, b)
      | _ \<Rightarrow> (False, err_size, replicate err_size 0))"

text \<open>
  Lines 328-368: the checks on what \<^verbatim>\<open>recvmsg\<close> stored, and the result. \<open>own\<close>
  says that \<^verbatim>\<open>rsp\<close> and \<^verbatim>\<open>rsp_len\<close> are the caller's; otherwise they point to
  the locals, and nothing of the caller's is written.
\<close>

definition cmd_response ::
  "hal_consts \<Rightarrow> recvd \<Rightarrow> byte \<Rightarrow> bool \<Rightarrow> nat option \<Rightarrow> byte list option \<Rightarrow> int option \<Rightarrow>
     cmd_out outcome" where
  "cmd_response K r req_opcode own rsp_len rsp fd =
     (let hal_msg = decode_hdr (iov0 r)
      in if ret r < int hdr_size then Exit
         else if ret r \<noteq> int (hdr_size + unat (len hal_msg)) then Exit
         else if opcode hal_msg \<noteq> req_opcode \<and> opcode hal_msg \<noteq> HAL_MSG_OP_ERROR K then Exit
         else if opcode hal_msg = HAL_MSG_OP_ERROR K then
           (case iov1 r of
              [] \<Rightarrow> Undefined
            | st # _ \<Rightarrow>
                Return \<lparr>status = uint st, rsp_len_out = rsp_len,
                        rsp_out = (if own then Some (iov1 r) else rsp),
                        fd_out = fd\<rparr>)
         else
           (case (case fd of
                    None \<Rightarrow> Return None
                  | Some v \<Rightarrow>
                      (case recv_aux (control r) (- 1) of
                         Return v' \<Rightarrow> Return (Some v')
                       | Exit \<Rightarrow> Exit
                       | Undefined \<Rightarrow> Undefined)) of
              Return fd' \<Rightarrow>
                Return \<lparr>status = BT_STATUS_SUCCESS K,
                        rsp_len_out = (if own then Some (unat (len hal_msg)) else rsp_len),
                        rsp_out = (if own then Some (iov1 r) else rsp),
                        fd_out = fd'\<rparr>
            | Exit \<Rightarrow> Exit
            | Undefined \<Rightarrow> Undefined))"

text \<open>
  Lines 300-326: the \<^verbatim>\<open>recvmsg\<close> into the header and the response buffer, with a
  control buffer when \<^verbatim>\<open>fd\<close> is given; then the checks.
\<close>

definition cmd_receive ::
  "hal_consts \<Rightarrow> recv_event \<Rightarrow> hal_state \<Rightarrow> byte \<Rightarrow> nat option \<Rightarrow> byte list option \<Rightarrow>
     int option \<Rightarrow> event list \<times> cmd_out outcome" where
  "cmd_receive K rcv s req_opcode rsp_len rsp fd =
     (let (own, n, buf) = rsp_target rsp_len rsp
      in case recvmsg rcv (replicate hdr_size 0) n buf (fd \<noteq> None) of
           None \<Rightarrow> ([Recvmsg (cmd_sk s)], Undefined)
         | Some r \<Rightarrow>
             if ret r < 0 then ([Recvmsg (cmd_sk s), MutexUnlock], Exit)
             else ([Recvmsg (cmd_sk s), MutexUnlock],
                   cmd_response K r req_opcode own rsp_len rsp fd))"

text \<open>
  The whole function. \<open>send_ret\<close> is what \<^verbatim>\<open>sendmsg\<close> returns and \<open>rcv\<close> what the
  \<^verbatim>\<open>recvmsg\<close> meets. \<open>param\<close> holds the bytes at \<^verbatim>\<open>param\<close>; the call hands the
  kernel the header and the first \<^verbatim>\<open>len\<close> of them in one \<^verbatim>\<open>sendmsg\<close>.
\<close>

definition hal_ipc_cmd ::
  "hal_consts \<Rightarrow> int \<Rightarrow> recv_event \<Rightarrow> hal_state \<Rightarrow> byte \<Rightarrow> byte \<Rightarrow> 16 word \<Rightarrow> byte list \<Rightarrow>
     nat option \<Rightarrow> byte list option \<Rightarrow> int option \<Rightarrow> event list \<times> cmd_out outcome" where
  "hal_ipc_cmd K send_ret rcv s req_service req_opcode req_len param rsp_len rsp fd =
     (if cmd_sk s < 0 then ([], Exit)
      else
        (let hal_msg = \<lparr>service_id = req_service, opcode = req_opcode, len = req_len\<rparr>;
             tr = [MutexLock,
                   Sendmsg (cmd_sk s) (encode_hdr hal_msg @ take (unat req_len) param)]
         in if send_ret < 0 then (tr @ [MutexUnlock], Exit)
            else
              (let (tr', res) = cmd_receive K rcv s req_opcode rsp_len rsp fd
               in (tr @ tr', res))))"



text \<open>
  The caller's side of the contract on the response buffer: when both \<^verbatim>\<open>rsp\<close> and
  \<^verbatim>\<open>rsp_len\<close> are given, the buffer at \<^verbatim>\<open>rsp\<close> has at least \<^verbatim>\<open>*rsp_len\<close> bytes.
\<close>

definition buffer_fits :: "nat option \<Rightarrow> byte list option \<Rightarrow> bool" where
  "buffer_fits rsp_len rsp =
     (case (rsp, rsp_len) of (Some b, Some l) \<Rightarrow> l \<le> length b | _ \<Rightarrow> True)"

subsection \<open>hal_ipc_init\<close>

text \<open>
  What the system calls of \<^verbatim>\<open>hal_ipc_init\<close> return. \<^verbatim>\<open>pthread_create\<close> returns 0
  when the thread was started and an error number, which is positive, when it was
  not (POSIX); \<open>pthread_create_id\<close> is the handle it stores when it succeeds.
\<close>

record init_env =
  socket_ret :: int
  bind_ret :: int
  listen_ret :: int
  cmd_poll_ret :: int
  cmd_accept_ret :: int
  notif_poll_ret :: int
  notif_accept_ret :: int
  pthread_create_ret :: int
  pthread_create_id :: nat

text \<open>
  An instance where every call succeeds but \<^verbatim>\<open>pthread_create\<close>, which returns
  \<^verbatim>\<open>EAGAIN\<close> (11): no thread was started.
\<close>

definition spawn_failure_env :: init_env where
  "spawn_failure_env =
     \<lparr>socket_ret = 3, bind_ret = 0, listen_ret = 0, cmd_poll_ret = 1, cmd_accept_ret = 4,
      notif_poll_ret = 1, notif_accept_ret = 5, pthread_create_ret = 11,
      pthread_create_id = 0\<rparr>"

definition accept_connection :: "int \<Rightarrow> int \<Rightarrow> int \<Rightarrow> event list \<times> int" where
  "accept_connection poll_ret accept_ret sk =
     (if poll_ret < 0 then ([Poll sk], - 1)
      else if poll_ret = 0 then ([Poll sk], - 1)
      else if accept_ret < 0 then ([Poll sk, Accept sk], - 1)
      else ([Poll sk, Accept sk], accept_ret))"

definition hal_ipc_init :: "init_env \<Rightarrow> hal_state \<Rightarrow> event list \<times> hal_state \<times> bool" where
  "hal_ipc_init E s =
     (let sk = socket_ret E in
      if sk < 0 then ([Socket], s, False)
      else if bind_ret E < 0 then ([Socket, Bind sk, Close sk], s, False)
      else if listen_ret E < 0 then ([Socket, Bind sk, Listen sk, Close sk], s, False)
      else
        (let tr = [Socket, Bind sk, Listen sk, PropertySet];
             (ta, c) = accept_connection (cmd_poll_ret E) (cmd_accept_ret E) sk;
             s1 = s\<lparr>cmd_sk := c\<rparr>
         in if cmd_sk s1 < 0 then (tr @ ta @ [Close sk], s1, False)
            else
              (let (tb, n) = accept_connection (notif_poll_ret E) (notif_accept_ret E) sk;
                   s2 = s1\<lparr>notif_sk := n\<rparr>
               in if notif_sk s2 < 0
                  then (tr @ ta @ tb @ [Close sk, Close (cmd_sk s2)], s2\<lparr>cmd_sk := - 1\<rparr>, False)
                  else
                    (let tr' = tr @ ta @ tb @ [Close sk, PthreadCreate];
                         err = pthread_create_ret E;
                         s3 = (if err = 0 then s2\<lparr>notif_th := pthread_create_id E\<rparr> else s2)
                     in if err < 0
                        then (tr' @ [Close (cmd_sk s3), Close (notif_sk s3)],
                              s3\<lparr>notif_th := 0, cmd_sk := - 1, notif_sk := - 1\<rparr>, False)
                        else (tr', s3, True)))))"

subsection \<open>The notification thread\<close>

text \<open>
  \<^verbatim>\<open>notification_dispatch\<close>: \<^verbatim>\<open>bt_notify_adapter\<close> is the application's; the
  call is an event of the trace.
\<close>

definition notification_dispatch :: "hal_consts \<Rightarrow> hal_msg_hdr \<Rightarrow> byte list \<Rightarrow> int \<Rightarrow> event list" where
  "notification_dispatch K msg payload fd =
     (if service_id msg = HAL_SERVICE_ID_BLUETOOTH K
      then [BtNotifyAdapter (opcode msg) payload (len msg)]
      else [])"

datatype iter_end = Continue | Break | Fatal | Fault

text \<open>
  One pass of the loop of \<^verbatim>\<open>notification_handler\<close> (lines 70-129), on what its
  \<^verbatim>\<open>recvmsg\<close> meets. The buffer is \<^verbatim>\<open>BLUEZ_HAL_MTU\<close> zero bytes, the header lies
  at its start and the payload behind the header. \<open>Fatal\<close> is \<^verbatim>\<open>exit\<close>, \<open>Fault\<close> the
  read through the null \<^verbatim>\<open>cmsg\<close>.
\<close>

definition notification_iter :: "hal_consts \<Rightarrow> hal_state \<Rightarrow> recv_event \<Rightarrow> event list \<times> iter_end" where
  "notification_iter K s ev =
     (case recvmsg ev (replicate (BLUEZ_HAL_MTU K) 0) 0 [] True of
        None \<Rightarrow> ([Recvmsg (notif_sk s)], Fault)
      | Some r \<Rightarrow>
          (let tr = [Recvmsg (notif_sk s)];
               hal_msg = decode_hdr (iov0 r);
               payload = take (unat (len hal_msg)) (drop hdr_size (iov0 r))
           in if ret r < 0 then (tr, Fatal)
              else if ret r = 0 then (if cmd_sk s = - 1 then (tr, Break) else (tr, Fatal))
              else if ret r < int hdr_size then (tr, Fatal)
              else if opcode hal_msg < HAL_MSG_MINIMUM_EVENT K then (tr, Fatal)
              else if ret r \<noteq> int (hdr_size + unat (len hal_msg)) then (tr, Fatal)
              else
                (case recv_aux (control r) (- 1) of
                   Return fd \<Rightarrow>
                     (tr @ NotificationDispatch hal_msg payload fd
                         # notification_dispatch K hal_msg payload fd, Continue)
                 | Exit \<Rightarrow> (tr, Fatal)
                 | Undefined \<Rightarrow> (tr, Fault))))"

text \<open>
  How the thread ends: \<open>Stopped\<close>, it left the loop, closed the notification socket and
  returned; \<open>Exited\<close>, it called \<^verbatim>\<open>exit\<close>; \<open>Faulted\<close>, it read through a null
  pointer; \<open>Waiting\<close>, it is blocked in \<^verbatim>\<open>recvmsg\<close>, nothing more having arrived.
\<close>

datatype thread_end = Stopped | Exited | Faulted | Waiting

text \<open>
  \<^verbatim>\<open>notification_handler\<close>, run on the list of what its successive \<^verbatim>\<open>recvmsg\<close>
  calls meet. The globals are those of \<open>s\<close> during the run.
\<close>

fun notification_handler ::
  "hal_consts \<Rightarrow> hal_state \<Rightarrow> recv_event list \<Rightarrow> event list \<times> hal_state \<times> thread_end" where
  "notification_handler K s [] = ([], s, Waiting)"
| "notification_handler K s (ev # evs) =
     (case notification_iter K s ev of
        (tr, Continue) \<Rightarrow>
          (let (tr', res) = notification_handler K s evs in (tr @ tr', res))
      | (tr, Break) \<Rightarrow> (tr @ [Close (notif_sk s)], s\<lparr>notif_sk := - 1\<rparr>, Stopped)
      | (tr, Fatal) \<Rightarrow> (tr, s, Exited)
      | (tr, Fault) \<Rightarrow> (tr, s, Faulted))"

subsection \<open>hal_ipc_cleanup and the process around it\<close>

text \<open>
  \<^verbatim>\<open>hal_ipc_cleanup\<close> runs in the caller's thread while the notification thread, if
  \<^verbatim>\<open>hal_ipc_init\<close> started one, runs \<^verbatim>\<open>notification_handler\<close>. The two share the
  globals and the notification socket, so the model is the process as a whole:
  \<^item> \<open>glob\<close>, the three globals;
  \<^item> \<open>pc\<close>, the statement of \<^verbatim>\<open>hal_ipc_cleanup\<close> that comes next (0 to 4 for lines
    244, 245, 247, 249, 250; 5 when it has returned), and \<open>main_undefined\<close>, set when
    the caller's thread has done what POSIX leaves undefined;
  \<^item> \<open>thread\<close>, the notification thread: its handle and how far it is (\<open>Waiting\<close>: at
    the \<^verbatim>\<open>recvmsg\<close> of its loop), or \<open>None\<close> when no thread was started;
  \<^item> the kernel's side of the connected notification socket: its descriptor
    \<open>sock\<close>, whether it was closed, whether it was shut down for reading, and the
    \<open>queue\<close> of records that have arrived and were not read yet;
  \<^item> \<open>calls\<close>, the trace of both threads.
  The peer sends nothing more and keeps its end open during the teardown.
\<close>

record system =
  glob :: hal_state
  pc :: nat
  main_undefined :: bool
  thread :: "(nat \<times> thread_end) option"
  sock :: int
  sock_closed :: bool
  rd_shutdown :: bool
  queue :: "recv_event list"
  calls :: "event list"

text \<open>The process is gone once a thread has called \<^verbatim>\<open>exit\<close> or faulted.\<close>

definition alive :: "system \<Rightarrow> bool" where
  "alive c =
     (\<not> main_undefined c \<and> map_option snd (thread c) \<noteq> Some Exited \<and>
      map_option snd (thread c) \<noteq> Some Faulted)"

text \<open>
  The kernel's side of \<^verbatim>\<open>close\<close>, \<^verbatim>\<open>shutdown(fd, SHUT_RD)\<close> and \<^verbatim>\<open>recvmsg\<close>, as
  far as the notification socket goes. On any other descriptor the first two change
  nothing here and \<^verbatim>\<open>recvmsg\<close> fails. \<^verbatim>\<open>recvmsg\<close> on the socket gives the oldest
  queued record; with none queued it gives the zero-length read when the socket is
  shut down for reading (the comment at line 90), and blocks otherwise (\<open>None\<close>).
\<close>

definition sys_close :: "system \<Rightarrow> int \<Rightarrow> system" where
  "sys_close c fd = c\<lparr>sock_closed := (sock_closed c \<or> fd = sock c)\<rparr>"

definition sys_shutdown_rd :: "system \<Rightarrow> int \<Rightarrow> system" where
  "sys_shutdown_rd c fd = c\<lparr>rd_shutdown := (rd_shutdown c \<or> (fd = sock c \<and> \<not> sock_closed c))\<rparr>"

definition sys_recvmsg :: "system \<Rightarrow> int \<Rightarrow> (recv_event \<times> recv_event list) option" where
  "sys_recvmsg c fd =
     (if fd \<noteq> sock c \<or> sock_closed c then Some (RecvFail, queue c)
      else case queue c of
             ev # q \<Rightarrow> Some (ev, q)
           | [] \<Rightarrow> if rd_shutdown c then Some (RecvMsg [] [], []) else None)"

text \<open>
  \<^verbatim>\<open>hal_ipc_cleanup\<close> (lines 242-251), one statement at a time: the statement at
  \<open>pc\<close>, or \<open>None\<close> when the thread cannot move. \<^verbatim>\<open>pthread_join\<close> returns once the
  thread whose handle is \<^verbatim>\<open>notif_th\<close> has returned, and is recorded in the trace
  then; until then it blocks. Joining a handle that is no thread of the process is
  undefined.
\<close>

definition hal_ipc_cleanup :: "system \<Rightarrow> system option" where
  "hal_ipc_cleanup c =
     (let g = glob c in
      if \<not> alive c then None
      else if pc c = 0 then
        Some ((sys_close c (cmd_sk g))\<lparr>calls := calls c @ [Close (cmd_sk g)], pc := 1\<rparr>)
      else if pc c = 1 then Some (c\<lparr>glob := g\<lparr>cmd_sk := - 1\<rparr>, pc := 2\<rparr>)
      else if pc c = 2 then
        Some ((sys_shutdown_rd c (notif_sk g))
                \<lparr>calls := calls c @ [ShutdownRd (notif_sk g)], pc := 3\<rparr>)
      else if pc c = 3 then
        (case thread c of
           None \<Rightarrow> Some (c\<lparr>main_undefined := True\<rparr>)
         | Some (t, e) \<Rightarrow>
             if t \<noteq> notif_th g then Some (c\<lparr>main_undefined := True\<rparr>)
             else if e = Stopped
               then Some (c\<lparr>calls := calls c @ [PthreadJoin (notif_th g)], pc := 4\<rparr>)
               else None)
      else if pc c = 4 then Some (c\<lparr>glob := g\<lparr>notif_th := 0\<rparr>, pc := 5\<rparr>)
      else None)"

text \<open>
  The notification thread, one pass of its loop at a time: \<^verbatim>\<open>notification_handler\<close>
  on the one record its \<^verbatim>\<open>recvmsg\<close> meets now, with the globals as they are now.
  When it leaves the loop, its \<^verbatim>\<open>close(notif_sk)\<close> reaches the kernel.
\<close>

definition notification_thread :: "hal_consts \<Rightarrow> system \<Rightarrow> system option" where
  "notification_thread K c =
     (if \<not> alive c then None
      else case thread c of
             Some (t, Waiting) \<Rightarrow>
               (case sys_recvmsg c (notif_sk (glob c)) of
                  None \<Rightarrow> None
                | Some (ev, q) \<Rightarrow>
                    (let (tr, g', e) = notification_handler K (glob c) [ev];
                         c' = (if e = Stopped then sys_close c (notif_sk (glob c)) else c)
                     in Some (c'\<lparr>glob := g', thread := Some (t, e), queue := q,
                                 calls := calls c @ tr\<rparr>)))
           | _ \<Rightarrow> None)"

text \<open>
  A run of the process under a schedule: the list of the threads chosen, one after
  the other. A thread that is chosen and cannot move leaves the process as it is. The
  process is at rest when neither thread can move.
\<close>

datatype tid = MainThread | NotifThread

definition sys_step :: "hal_consts \<Rightarrow> tid \<Rightarrow> system \<Rightarrow> system option" where
  "sys_step K w c = (case w of MainThread \<Rightarrow> hal_ipc_cleanup c | NotifThread \<Rightarrow> notification_thread K c)"

fun run :: "hal_consts \<Rightarrow> tid list \<Rightarrow> system \<Rightarrow> system" where
  "run K [] c = c"
| "run K (w # ws) c = (case sys_step K w c of None \<Rightarrow> run K ws c | Some c' \<Rightarrow> run K ws c')"



text \<open>
  The start of a teardown after a successful \<^verbatim>\<open>hal_ipc_init\<close>:
  \<^verbatim>\<open>hal_ipc_cleanup\<close> is entered, the thread of handle \<^verbatim>\<open>notif_th\<close> is in its loop,
  \<^verbatim>\<open>notif_sk\<close> is the open notification socket, \<^verbatim>\<open>cmd_sk\<close> is another descriptor,
  and the thread can dispatch every notification still queued.
\<close>

definition teardown_start :: "hal_consts \<Rightarrow> system \<Rightarrow> bool" where
  "teardown_start K c =
     (pc c = 0 \<and> \<not> main_undefined c \<and> thread c = Some (notif_th (glob c), Waiting) \<and>
      notif_sk (glob c) = sock c \<and> cmd_sk (glob c) \<noteq> sock c \<and> \<not> sock_closed c \<and>
      \<not> rd_shutdown c \<and> calls c = [] \<and>
      snd (snd (notification_handler K (glob c) (queue c))) = Waiting)"



text \<open>
  A teardown with one notification of the Bluetooth service, with a descriptor
  attached, still queued; and one with a notification without a descriptor queued.
\<close>

definition teardown_example :: system where
  "teardown_example =
     \<lparr>glob = connected_state, pc = 0, main_undefined = False, thread = Some (1, Waiting),
      sock = 5, sock_closed = False, rd_shutdown = False,
      queue = [RecvMsg [1, 129, 1, 0, 9] [passed_fd 8]], calls = []\<rparr>"

definition teardown_plain_example :: system where
  "teardown_plain_example = teardown_example\<lparr>queue := [RecvMsg [1, 129, 1, 0, 9] []]\<rparr>"


section \<open>Properties\<close>

subsection \<open>The header on the wire\<close>

lemma unat_low_byte: "unat (ucast (l :: 16 word) :: byte) = unat l mod 256"
  by (simp add: unsigned_ucast_eq take_bit_eq_mod)

lemma unat_high_byte: "unat (drop_bit 8 (l :: 16 word)) = unat l div 256"
  by (subst unat_drop_bit_eq) (simp add: drop_bit_eq_div)

lemma len_bytes_inverse:
  "word_of_nat (unat (ucast l :: byte) + 256 * unat (ucast (drop_bit 8 l) :: byte)) = (l :: 16 word)"
proof -
  have "unat l < 65536"
    using unsigned_less [of l, where 'a = nat] by simp
  then have "unat l mod 256 + 256 * (unat l div 256 mod 256) = unat l"
    by simp
  then have "unat (ucast l :: byte) + 256 * unat (ucast (drop_bit 8 l) :: byte) = unat l"
    by (simp only: unat_low_byte unat_high_byte)
  then show ?thesis
    by (simp only: of_nat_unat ucast_id)
qed

lemma decode_encode_hdr: "decode_hdr (encode_hdr h @ body) = h"
  by (simp add: encode_hdr_def len_bytes_inverse del: of_nat_add of_nat_mult)

lemma decode_encode_hdr_only: "decode_hdr (encode_hdr h) = h"
  using decode_encode_hdr [of h "[]"] by simp

lemma length_encode_hdr: "length (encode_hdr h) = 4"
  by (simp add: encode_hdr_def)

text \<open>What \<^verbatim>\<open>recvmsg\<close> stores of a record that starts with a whole header.\<close>

lemma recvmsg_framed:
  "recvmsg (RecvMsg (encode_hdr h @ body) anc) (replicate hdr_size 0) n buf w =
     (if length buf < min (length body) n then None
      else Some \<lparr>ret = int (hdr_size + min (length body) n), iov0 = encode_hdr h,
                 iov1 = take (min (length body) n) body @ drop (min (length body) n) buf,
                 control = (if w then anc else [])\<rparr>)"
  by (simp add: recvmsg_def hdr_size_def length_encode_hdr Let_def)

lemma rsp_target_fits:
  "buffer_fits rsp_len rsp \<Longrightarrow> rsp_target rsp_len rsp = (own, n, buf) \<Longrightarrow> n \<le> length buf"
  by (auto simp add: buffer_fits_def rsp_target_def err_size_def split: option.splits)

subsection \<open>The command round trip\<close>

text \<open>
  C9. Called while the command socket is not open (\<^verbatim>\<open>cmd_sk\<close> is negative, -1 being
  the sentinel before \<^verbatim>\<open>hal_ipc_init\<close> and after \<^verbatim>\<open>hal_ipc_cleanup\<close>),
  \<^verbatim>\<open>hal_ipc_cmd\<close> makes no system call and returns no status: it exits.
\<close>

theorem hal_ipc_cmd_closed_socket_exits:
  "cmd_sk s < 0 \<Longrightarrow>
   hal_ipc_cmd K send_ret rcv s req_service req_opcode req_len param rsp_len rsp fd = ([], Exit)"
  by (simp add: hal_ipc_cmd_def)

theorem hal_ipc_cmd_closed_socket_exits_witness:
  "cmd_sk initial_state < 0 \<and>
   hal_ipc_cmd example_consts 6 (RecvMsg [1, 5, 0, 0] []) initial_state 1 5 2 [170, 187]
     None None None = ([], Exit)"
  using hal_ipc_cmd_closed_socket_exits [of initial_state example_consts 6 "RecvMsg [1, 5, 0, 0] []" 1 5 2
      "[170, 187]" None None None]
  by (simp add: initial_state_def)

lemma cmd_response_bad_opcode:
  "opcode (decode_hdr (iov0 r)) \<noteq> req_opcode \<Longrightarrow>
   opcode (decode_hdr (iov0 r)) \<noteq> HAL_MSG_OP_ERROR K \<Longrightarrow>
   cmd_response K r req_opcode own rsp_len rsp fd = Exit"
  by (simp add: cmd_response_def Let_def)

lemma cmd_receive_bad_opcode:
  assumes "opcode h \<noteq> req_opcode" and "opcode h \<noteq> HAL_MSG_OP_ERROR K"
    and "buffer_fits rsp_len rsp"
  shows "snd (cmd_receive K (RecvMsg (encode_hdr h @ body) anc) s req_opcode rsp_len rsp fd) = Exit"
proof -
  obtain own n buf where t: "rsp_target rsp_len rsp = (own, n, buf)"
    by (cases "rsp_target rsp_len rsp") auto
  have "n \<le> length buf"
    using rsp_target_fits [OF assms(3) t] .
  then have "\<not> length buf < min (length body) n"
    by simp
  then show ?thesis
    using assms(1,2)
    by (simp add: cmd_receive_def t recvmsg_framed cmd_response_bad_opcode
        decode_encode_hdr_only)
qed

lemma cmd_receive_bad_opcode_no_return:
  assumes "opcode h \<noteq> req_opcode" and "opcode h \<noteq> HAL_MSG_OP_ERROR K"
  shows "snd (cmd_receive K (RecvMsg (encode_hdr h @ body) anc) s req_opcode rsp_len rsp fd)
           \<noteq> Return r"
  using assms
  by (simp add: cmd_receive_def recvmsg_framed cmd_response_bad_opcode
      decode_encode_hdr_only case_prod_beta)

text \<open>
  C5. A response whose opcode is neither the opcode of the request nor
  \<^verbatim>\<open>HAL_MSG_OP_ERROR\<close> never makes the call return, whatever else the response
  holds; so a call that returns has met a response with one of the two opcodes. When
  the caller's buffer has the size the caller says, the call ends in \<^verbatim>\<open>exit\<close>.
\<close>

theorem hal_ipc_cmd_unexpected_opcode_exits:
  assumes "opcode h \<noteq> req_opcode" and "opcode h \<noteq> HAL_MSG_OP_ERROR K"
  shows "snd (hal_ipc_cmd K send_ret (RecvMsg (encode_hdr h @ body) anc) s req_service
                req_opcode req_len param rsp_len rsp fd) \<noteq> Return r \<and>
         (buffer_fits rsp_len rsp \<longrightarrow>
            snd (hal_ipc_cmd K send_ret (RecvMsg (encode_hdr h @ body) anc) s req_service
                   req_opcode req_len param rsp_len rsp fd) = Exit)"
  using cmd_receive_bad_opcode [OF assms, of rsp_len rsp body anc s fd]
    cmd_receive_bad_opcode_no_return [OF assms, of body anc s rsp_len rsp fd r]
  by (simp add: hal_ipc_cmd_def Let_def case_prod_beta)

theorem hal_ipc_cmd_unexpected_opcode_exits_witness:
  "opcode \<lparr>service_id = 1, opcode = 6, len = 0\<rparr> \<noteq> (5 :: byte) \<and>
   opcode \<lparr>service_id = 1, opcode = 6, len = 0\<rparr> \<noteq> HAL_MSG_OP_ERROR example_consts \<and>
   buffer_fits (Some 2) (Some [0, 0]) \<and>
   snd (hal_ipc_cmd example_consts 6
          (RecvMsg (encode_hdr \<lparr>service_id = 1, opcode = 6, len = 0\<rparr> @ []) [])
          connected_state 1 5 2 [170, 187] (Some 2) (Some [0, 0]) None) = Exit"
proof -
  have a: "opcode \<lparr>service_id = 1, opcode = 6, len = 0\<rparr> \<noteq> (5 :: byte)"
    by simp
  have b: "opcode \<lparr>service_id = 1, opcode = 6, len = 0\<rparr> \<noteq> HAL_MSG_OP_ERROR example_consts"
    by (simp add: example_consts_def)
  have c: "buffer_fits (Some 2) (Some [0, 0])"
    by (simp add: buffer_fits_def)
  show ?thesis
    using a b c
      hal_ipc_cmd_unexpected_opcode_exits [OF a b, where send_ret = 6 and body = "[]"
        and anc = "[]" and s = connected_state and req_service = 1 and req_len = 2
        and param = "[170, 187]" and rsp_len = "Some 2" and rsp = "Some [0, 0]"
        and fd = None]
    by simp
qed

lemmas cmd_defs = hal_ipc_cmd_def cmd_receive_def cmd_response_def rsp_target_def recvmsg_def
  recv_aux_def CMSG_FIRSTHDR_def hdr_size_def err_size_def encode_hdr_def Let_def

text \<open>
  C1. With an \<^verbatim>\<open>fd\<close> slot given and a response of the request's opcode, the slot
  should receive the descriptor the peer passed, and -1 when none was passed. The code
  does neither. The response that passes descriptor 7 leaves -1 in the slot and the
  call returns \<^verbatim>\<open>BT_STATUS_SUCCESS\<close>: the loop over the control messages runs while
  \<^verbatim>\<open>!cmsg\<close>, so it is left before the first message is looked at. The response
  that passes no descriptor makes the loop body run with \<^verbatim>\<open>cmsg\<close> null.
\<close>

theorem hal_ipc_cmd_passed_fd_lost:
  "hal_ipc_cmd example_consts 6 (RecvMsg [1, 5, 0, 0] [passed_fd 7]) connected_state
       1 5 2 [170, 187] None None (Some 0)
     = ([MutexLock, Sendmsg 4 [1, 5, 2, 0, 170, 187], Recvmsg 4, MutexUnlock],
        Return \<lparr>status = 0, rsp_len_out = None, rsp_out = None, fd_out = Some (- 1)\<rparr>) \<and>
   hal_ipc_cmd example_consts 6 (RecvMsg [1, 5, 0, 0] []) connected_state
       1 5 2 [170, 187] None None (Some 0)
     = ([MutexLock, Sendmsg 4 [1, 5, 2, 0, 170, 187], Recvmsg 4, MutexUnlock], Undefined)"
  by (simp add: cmd_defs example_consts_def connected_state_def passed_fd_def)

text \<open>
  More generally, no call hands a passed descriptor to its caller: when the call
  returns, the slot holds what it held before (an error response) or -1.
\<close>

lemma hal_ipc_cmd_never_delivers_fd:
  "snd (hal_ipc_cmd K send_ret rcv s req_service req_opcode req_len param rsp_len rsp (Some v))
     = Return r \<Longrightarrow> fd_out r = Some v \<or> fd_out r = Some (- 1)"
  by (auto simp add: hal_ipc_cmd_def cmd_receive_def cmd_response_def recv_aux_def Let_def
      case_prod_beta split: if_splits option.splits list.splits outcome.splits)

lemma cmd_receive_error:
  assumes "rsp_target rsp_len rsp = (own, n, buf)" and "1 \<le> n" and "n \<le> length buf"
  shows "cmd_receive K
           (RecvMsg (encode_hdr \<lparr>service_id = sid, opcode = HAL_MSG_OP_ERROR K, len = 1\<rparr>
              @ [st]) anc) s req_opcode rsp_len rsp fd
         = ([Recvmsg (cmd_sk s), MutexUnlock],
            Return \<lparr>status = uint st, rsp_len_out = rsp_len,
                    rsp_out = (if own then Some (st # tl buf) else rsp), fd_out = fd\<rparr>)"
proof -
  have m: "min (Suc 0) n = Suc 0"
    using assms(2) by simp
  have l: "buf \<noteq> []"
    using assms(2,3) by auto
  have d: "drop (Suc 0) buf = tl buf"
    by (simp add: drop_Suc)
  show ?thesis
    unfolding cmd_receive_def assms(1) recvmsg_framed
    using l
    by (simp add: cmd_response_def decode_encode_hdr_only hdr_size_def Let_def d m)
qed

text \<open>
  C3, as the code has it. The caller gave a response buffer of at least one byte, and
  the response is the header with \<^verbatim>\<open>HAL_MSG_OP_ERROR\<close> and length 1, followed by the
  status byte. The call returns that status. The error body is received into the
  caller's buffer: its first byte is the status now, the bytes behind it are as they
  were. \<^verbatim>\<open>*rsp_len\<close> and the \<^verbatim>\<open>fd\<close> slot are as they were.
\<close>

theorem hal_ipc_cmd_error_response:
  assumes "0 \<le> cmd_sk s" and "0 \<le> send_ret" and "1 \<le> n" and "n \<le> length buf"
  shows "snd (hal_ipc_cmd K send_ret
            (RecvMsg (encode_hdr \<lparr>service_id = sid, opcode = HAL_MSG_OP_ERROR K, len = 1\<rparr>
               @ [st]) anc)
            s req_service req_opcode req_len param (Some n) (Some buf) fd)
         = Return \<lparr>status = uint st, rsp_len_out = Some n, rsp_out = Some (st # tl buf),
                   fd_out = fd\<rparr>"
proof -
  have t: "rsp_target (Some n) (Some buf) = (True, n, buf)"
    by (simp add: rsp_target_def)
  show ?thesis
    using assms(1,2)
    by (simp add: hal_ipc_cmd_def Let_def cmd_receive_error [OF t assms(3,4)])
qed

theorem hal_ipc_cmd_error_response_witness:
  "0 \<le> cmd_sk connected_state \<and> (0 :: int) \<le> 6 \<and> (1 :: nat) \<le> 3 \<and>
   3 \<le> length [170, 187, 204 :: byte] \<and>
   snd (hal_ipc_cmd example_consts 6
          (RecvMsg (encode_hdr \<lparr>service_id = 1, opcode = HAL_MSG_OP_ERROR example_consts,
                                len = 1\<rparr> @ [5]) [])
          connected_state 1 5 2 [170, 187] (Some 3) (Some [170, 187, 204]) (Some 9))
     = Return \<lparr>status = 5, rsp_len_out = Some 3, rsp_out = Some [5, 187, 204],
               fd_out = Some 9\<rparr>"
  using hal_ipc_cmd_error_response [where s = connected_state and send_ret = 6 and n = 3
      and buf = "[170, 187, 204]" and K = example_consts and sid = 1 and st = 5 and anc = "[]"
      and req_service = 1 and req_opcode = 5 and req_len = 2 and param = "[170, 187]"
      and fd = "Some 9"]
  by (simp add: connected_state_def)

text \<open>
  The statement of the specification fails: the error response with status 5 changes
  the caller's buffer from 170, 187, 204 to 5, 187, 204.
\<close>

theorem hal_ipc_cmd_error_fills_buffer:
  "hal_ipc_cmd example_consts 6 (RecvMsg [1, 0, 1, 0, 5] []) connected_state
       1 5 2 [170, 187] (Some 3) (Some [170, 187, 204]) None
     = ([MutexLock, Sendmsg 4 [1, 5, 2, 0, 170, 187], Recvmsg 4, MutexUnlock],
        Return \<lparr>status = 5, rsp_len_out = Some 3, rsp_out = Some [5, 187, 204],
                fd_out = None\<rparr>) \<and>
   Some [5, 187, 204] \<noteq> Some [170, 187, 204 :: byte]"
  by (simp add: cmd_defs example_consts_def connected_state_def)




text \<open>
  C10. Called with an \<^verbatim>\<open>fd\<close> slot that holds \<open>v\<close>, on an error response (the
  header with \<^verbatim>\<open>HAL_MSG_OP_ERROR\<close> and length 1, then the status byte), the call
  returns the status and the slot still holds \<open>v\<close>: line 346 returns before line 353
  would store -1. The response buffer is the caller's, of the size the caller says and
  not of size 0, or it is not given.
\<close>

theorem hal_ipc_cmd_error_keeps_fd:
  assumes "0 \<le> cmd_sk s" and "0 \<le> send_ret" and "buffer_fits rsp_len rsp"
    and "rsp = None \<or> rsp_len \<noteq> Some 0"
  shows "\<exists>r. snd (hal_ipc_cmd K send_ret
                (RecvMsg (encode_hdr \<lparr>service_id = sid, opcode = HAL_MSG_OP_ERROR K,
                                      len = 1\<rparr> @ [st]) anc)
                s req_service req_opcode req_len param rsp_len rsp (Some v)) = Return r \<and>
             status r = uint st \<and> fd_out r = Some v"
proof -
  obtain own n buf where t: "rsp_target rsp_len rsp = (own, n, buf)"
    by (cases "rsp_target rsp_len rsp") auto
  have fits: "n \<le> length buf"
    using rsp_target_fits [OF assms(3) t] .
  have pos: "1 \<le> n"
    using t assms(4) by (auto simp add: rsp_target_def err_size_def split: option.splits)
  show ?thesis
    using assms(1,2)
    by (simp add: hal_ipc_cmd_def Let_def cmd_receive_error [OF t pos fits])
qed

theorem hal_ipc_cmd_error_keeps_fd_witness:
  "0 \<le> cmd_sk connected_state \<and> (0 :: int) \<le> 6 \<and> buffer_fits None None \<and>
   (\<exists>r. snd (hal_ipc_cmd example_consts 6
               (RecvMsg (encode_hdr \<lparr>service_id = 1, opcode = HAL_MSG_OP_ERROR example_consts,
                                     len = 1\<rparr> @ [5]) [passed_fd 7])
               connected_state 1 5 2 [170, 187] None None (Some 42)) = Return r \<and>
        status r = 5 \<and> fd_out r = Some 42)"
  using hal_ipc_cmd_error_keeps_fd [where s = connected_state and send_ret = 6
      and rsp_len = None and rsp = None and K = example_consts and sid = 1 and st = 5
      and anc = "[passed_fd 7]" and req_service = 1 and req_opcode = 5 and req_len = 2
      and param = "[170, 187]" and v = 42]
  by (simp add: connected_state_def buffer_fits_def)

subsection \<open>The notification thread\<close>

lemmas notif_defs = notification_iter_def notification_dispatch_def recvmsg_def recv_aux_def
  CMSG_FIRSTHDR_def hdr_size_def Let_def

lemma notification_iter_zero:
  "notification_iter K s (RecvMsg [] anc) =
     ([Recvmsg (notif_sk s)], if cmd_sk s = - 1 then Break else Fatal)"
  by (simp add: notification_iter_def recvmsg_def Let_def)

lemma notification_iter_fail:
  "notification_iter K s RecvFail = ([Recvmsg (notif_sk s)], Fatal)"
  by (simp add: notification_iter_def recvmsg_def Let_def)

lemma decode_hdr_append:
  assumes "hdr_size \<le> length m"
  shows "decode_hdr (m @ z) = decode_hdr m"
proof -
  from assms obtain a b c d r where "m = a # b # c # d # r"
    by (cases m; simp add: hdr_size_def; rename_tac m1; case_tac m1; simp;
        rename_tac m2; case_tac m2; simp; rename_tac m3; case_tac m3; simp)
  then show ?thesis
    by simp
qed

lemma recvmsg_single:
  "recvmsg (RecvMsg data anc) (replicate mtu 0) 0 [] True =
     Some \<lparr>ret = int (length (take mtu data)),
           iov0 = take mtu data @ replicate (mtu - length data) 0,
           iov1 = [], control = anc\<rparr>"
  by (simp add: recvmsg_def Let_def min_def)

lemma int_len_eq: "(int a = int b + uint (w :: 16 word)) = (a = b + unat w)"
proof -
  have "uint w = int (unat w)"
    by simp
  then show ?thesis
    by (simp only: of_nat_add [symmetric] of_nat_eq_iff)
qed

text \<open>One pass of the loop when nothing is received.\<close>

lemma notification_iter_nothing:
  assumes "take (BLUEZ_HAL_MTU K) data = []"
  shows "notification_iter K s (RecvMsg data anc) =
           ([Recvmsg (notif_sk s)], if cmd_sk s = - 1 then Break else Fatal)"
  unfolding notification_iter_def recvmsg_single assms
  by (simp add: Let_def)

text \<open>One pass of the loop on a record that fails one of the three checks.\<close>

lemma notification_iter_invalid:
  assumes "m = take (BLUEZ_HAL_MTU K) data" and "m \<noteq> []"
    and "length m < hdr_size \<or> opcode (decode_hdr m) < HAL_MSG_MINIMUM_EVENT K \<or>
         length m \<noteq> hdr_size + unat (len (decode_hdr m))"
  shows "notification_iter K s (RecvMsg data anc) = ([Recvmsg (notif_sk s)], Fatal)"
proof (cases "length m < hdr_size")
  case True
  then show ?thesis
    using assms(1,2) by (simp add: notification_iter_def recvmsg_single Let_def)
next
  case False
  then have d: "decode_hdr (m @ replicate (BLUEZ_HAL_MTU K - length data) 0) = decode_hdr m"
    by (simp add: decode_hdr_append)
  show ?thesis
    using assms(2,3) False d
    unfolding notification_iter_def recvmsg_single assms(1) [symmetric]
    by (auto simp add: Let_def int_len_eq)
qed

text \<open>
  A run that ends waiting has dispatched everything it was given; what arrives next
  is handled as it would be at the start of the loop.
\<close>

lemma notification_handler_append:
  "notification_handler K s pre = (t, s', Waiting) \<Longrightarrow>
   notification_handler K s (pre @ evs) =
     (t @ fst (notification_handler K s evs), snd (notification_handler K s evs))"
  by (induction pre arbitrary: t) (auto split: prod.splits iter_end.splits)

text \<open>
  C6. After any number of notifications, a zero-length read ends the thread in one of
  two ways. With \<^verbatim>\<open>cmd_sk\<close> equal to -1 the thread leaves the loop, closes the
  notification socket, resets \<^verbatim>\<open>notif_sk\<close> and returns; with any other value of
  \<^verbatim>\<open>cmd_sk\<close> it calls \<^verbatim>\<open>exit\<close>. A failed read ends in \<^verbatim>\<open>exit\<close> whatever
  \<^verbatim>\<open>cmd_sk\<close> is.
\<close>

theorem notification_zero_or_failed_read:
  assumes "notification_handler K s pre = (t, s', Waiting)"
  shows "notification_handler K s (pre @ RecvMsg [] anc # evs) =
           (if cmd_sk s = - 1
            then (t @ [Recvmsg (notif_sk s), Close (notif_sk s)], s\<lparr>notif_sk := - 1\<rparr>, Stopped)
            else (t @ [Recvmsg (notif_sk s)], s, Exited)) \<and>
         notification_handler K s (pre @ RecvFail # evs) =
           (t @ [Recvmsg (notif_sk s)], s, Exited)"
  by (simp add: notification_handler_append [OF assms] notification_iter_zero
      notification_iter_fail)

lemma handled_one_notification:
  "notification_handler example_consts s [RecvMsg [1, 129, 1, 0, 9] [passed_fd 8]]
     = ([Recvmsg (notif_sk s),
         NotificationDispatch \<lparr>service_id = 1, opcode = 129, len = 1\<rparr> [9] (- 1),
         BtNotifyAdapter 129 [9] 1], s, Waiting)"
  by (simp add: notif_defs example_consts_def passed_fd_def)

theorem notification_zero_or_failed_read_witness:
  "notification_handler example_consts torn_down_state
       ([RecvMsg [1, 129, 1, 0, 9] [passed_fd 8]] @ RecvMsg [] [] # [RecvMsg [1, 129, 0, 0] []])
     = ([Recvmsg 5, NotificationDispatch \<lparr>service_id = 1, opcode = 129, len = 1\<rparr> [9] (- 1),
         BtNotifyAdapter 129 [9] 1, Recvmsg 5, Close 5],
        \<lparr>cmd_sk = - 1, notif_sk = - 1, notif_th = 1\<rparr>, Stopped) \<and>
   notification_handler example_consts connected_state
       ([RecvMsg [1, 129, 1, 0, 9] [passed_fd 8]] @ RecvMsg [] [] # [])
     = ([Recvmsg 5, NotificationDispatch \<lparr>service_id = 1, opcode = 129, len = 1\<rparr> [9] (- 1),
         BtNotifyAdapter 129 [9] 1, Recvmsg 5], connected_state, Exited) \<and>
   notification_handler example_consts torn_down_state
       ([RecvMsg [1, 129, 1, 0, 9] [passed_fd 8]] @ RecvFail # [])
     = ([Recvmsg 5, NotificationDispatch \<lparr>service_id = 1, opcode = 129, len = 1\<rparr> [9] (- 1),
         BtNotifyAdapter 129 [9] 1, Recvmsg 5], torn_down_state, Exited)"
  using
    notification_zero_or_failed_read [OF handled_one_notification [of torn_down_state],
      of "[]" "[RecvMsg [1, 129, 0, 0] []]"]
    notification_zero_or_failed_read [OF handled_one_notification [of torn_down_state],
      of "[]" "[]"]
    notification_zero_or_failed_read [OF handled_one_notification [of connected_state],
      of "[]" "[]"]
  by (simp add: torn_down_state_def connected_state_def)

text \<open>
  C7. After any number of notifications, a record that is shorter than a header, or
  whose opcode is below \<^verbatim>\<open>HAL_MSG_MINIMUM_EVENT\<close>, or whose length is not the
  header's size plus the length the header declares, ends the thread in \<^verbatim>\<open>exit\<close>.
  The trace grows by the \<^verbatim>\<open>recvmsg\<close> alone: \<^verbatim>\<open>notification_dispatch\<close> is not
  called for the record, nor for anything behind it. (\<open>m\<close> is what the thread
  receives of the record: its first \<^verbatim>\<open>BLUEZ_HAL_MTU\<close> bytes. When nothing at all is
  received, that is the zero-length read of line 91, which comes before the three
  checks: with \<^verbatim>\<open>cmd_sk\<close> equal to -1 the thread stops instead, and does not
  dispatch either.)
\<close>

theorem notification_invalid_is_fatal:
  assumes "notification_handler K s pre = (t, s', Waiting)"
    and "m = take (BLUEZ_HAL_MTU K) data"
    and "length m < hdr_size \<or> opcode (decode_hdr m) < HAL_MSG_MINIMUM_EVENT K \<or>
         length m \<noteq> hdr_size + unat (len (decode_hdr m))"
  shows "notification_handler K s (pre @ RecvMsg data anc # evs) =
           (if m = [] \<and> cmd_sk s = - 1
            then (t @ [Recvmsg (notif_sk s), Close (notif_sk s)], s\<lparr>notif_sk := - 1\<rparr>, Stopped)
            else (t @ [Recvmsg (notif_sk s)], s, Exited))"
proof (cases "m = []")
  case True
  then show ?thesis
    using assms(2)
    by (simp add: notification_handler_append [OF assms(1)] notification_iter_nothing)
next
  case False
  then show ?thesis
    by (simp add: notification_handler_append [OF assms(1)]
        notification_iter_invalid [OF assms(2) False assms(3)])
qed

theorem notification_invalid_is_fatal_witness:
  "[1, 128, 0, 0] = take (BLUEZ_HAL_MTU example_consts) [1, 128, 0, 0 :: byte] \<and>
   [1, 128, 0, 0 :: byte] \<noteq> [] \<and>
   opcode (decode_hdr [1, 128, 0, 0]) < HAL_MSG_MINIMUM_EVENT example_consts \<and>
   notification_handler example_consts connected_state
       ([RecvMsg [1, 129, 1, 0, 9] [passed_fd 8]] @ RecvMsg [1, 128, 0, 0] [passed_fd 8]
          # [RecvMsg [1, 129, 0, 0] [passed_fd 8]])
     = ([Recvmsg 5, NotificationDispatch \<lparr>service_id = 1, opcode = 129, len = 1\<rparr> [9] (- 1),
         BtNotifyAdapter 129 [9] 1, Recvmsg 5], connected_state, Exited)"
proof -
  have a: "[1, 128, 0, 0] = take (BLUEZ_HAL_MTU example_consts) [1, 128, 0, 0 :: byte]"
    by (simp add: example_consts_def)
  have b: "[1, 128, 0, 0 :: byte] \<noteq> []"
    by simp
  have c: "opcode (decode_hdr [1, 128, 0, 0]) < HAL_MSG_MINIMUM_EVENT example_consts"
    by (simp add: example_consts_def)
  then have d: "length [1, 128, 0, 0 :: byte] < hdr_size \<or>
      opcode (decode_hdr [1, 128, 0, 0]) < HAL_MSG_MINIMUM_EVENT example_consts \<or>
      length [1, 128, 0, 0 :: byte] \<noteq> hdr_size + unat (len (decode_hdr [1, 128, 0, 0]))"
    by blast
  show ?thesis
    using a b c
      notification_invalid_is_fatal [OF handled_one_notification [of connected_state] a d,
        of "[passed_fd 8]" "[RecvMsg [1, 129, 0, 0] [passed_fd 8]]"]
    by (simp add: connected_state_def)
qed

subsection \<open>Teardown\<close>






















text \<open>
  Outside \<open>teardown_start\<close>: a queued notification without a descriptor is read by
  the thread and makes it fault in the loop over the control messages (the loop of
  C1), whatever the teardown does.
\<close>

lemma teardown_plain_notification_faults:
  "\<not> teardown_start example_consts teardown_plain_example \<and>
   thread (run example_consts [MainThread, NotifThread] teardown_plain_example)
     = Some (1, Faulted)"
  by code_simp


text \<open>
  And with no thread started, \<^verbatim>\<open>hal_ipc_cleanup\<close> closes the command socket, shuts
  the notification socket down and joins the handle of no thread; the notification
  socket stays open.
\<close>

lemma teardown_without_thread:
  "main_undefined (run example_consts [MainThread, MainThread, MainThread, MainThread]
      (teardown_example\<lparr>thread := None\<rparr>)) \<and>
   notif_sk (glob (run example_consts [MainThread, MainThread, MainThread, MainThread]
      (teardown_example\<lparr>thread := None\<rparr>))) = 5 \<and>
   \<not> sock_closed (run example_consts [MainThread, MainThread, MainThread, MainThread]
      (teardown_example\<lparr>thread := None\<rparr>))"
  by code_simp



subsection \<open>Set-up\<close>

text \<open>
  A \<^verbatim>\<open>hal_ipc_init\<close> that returns false leaves the globals as they were at the
  start: every failure the code detects is cleaned up.
\<close>

lemma hal_ipc_init_false_resets:
  "hal_ipc_init E initial_state = (t, s', False) \<Longrightarrow> s' = initial_state"
  by (auto simp add: hal_ipc_init_def accept_connection_def initial_state_def Let_def
      split: if_splits)

text \<open>
  C2. Every failing step of \<^verbatim>\<open>hal_ipc_init\<close> should close what was opened, reset
  the globals and return false, a failing \<^verbatim>\<open>pthread_create\<close> included. The code
  misses that one: line 228 tests \<^verbatim>\<open>err < 0\<close>, and \<^verbatim>\<open>pthread_create\<close> reports a
  failure by a positive error number. With \<^verbatim>\<open>EAGAIN\<close> the function returns true,
  both sockets stay open and no thread runs.
\<close>

theorem hal_ipc_init_spawn_failure_undetected:
  "hal_ipc_init spawn_failure_env initial_state =
     ([Socket, Bind 3, Listen 3, PropertySet, Poll 3, Accept 3, Poll 3, Accept 3, Close 3,
       PthreadCreate],
      \<lparr>cmd_sk = 4, notif_sk = 5, notif_th = 0\<rparr>, True)"
  by (simp add: hal_ipc_init_def accept_connection_def spawn_failure_env_def
      initial_state_def Let_def)

end
